theory Spec2Isabelle
  imports Main "HOL-Library.Sublist"
begin

section \<open>The cart upsells widget (assets/cart-upsells.js)\<close>

text \<open>
  A shallow embedding of the custom element \<open>CartUpsells\<close>. The element's private
  fields, the part of the DOM it reads and writes, and the bookkeeping of its suspended
  \<open>async\<close> calls are one record; every method is a function from state to state.
  The only suspension point of \<open>#loadRecommendations\<close> is \<open>await fetch\<close>
  (with the \<open>await response.text()\<close> that follows it), so the method is split
  there: \<open>loadRecommendations\<close> is the part that runs synchronously when the method
  is called, \<open>settle\<close> is the part that runs when the request of one suspended call
  settles.
\<close>

subsection \<open>JavaScript values\<close>

text \<open>
  A \<open>dataset\<close> entry is a string, or \<open>undefined\<close> when the attribute is absent.
  Both \<open>undefined\<close> and the empty string are falsy.
\<close>

definition truthy :: "string option \<Rightarrow> bool" where
  "truthy a = (case a of None \<Rightarrow> False | Some v \<Rightarrow> v \<noteq> [])"

text \<open>What a template literal prints for a value.\<close>

definition str :: "string option \<Rightarrow> string" where
  "str a = (case a of None \<Rightarrow> ''undefined'' | Some v \<Rightarrow> v)"

subsubsection \<open>\<open>parseInt\<close> with no radix argument\<close>

text \<open>
  Leading white space is skipped, one sign is read, a \<open>0x\<close> or \<open>0X\<close> prefix
  selects radix 16 (radix 10 otherwise), and the longest prefix of digits of that radix is
  the value; no digit at all gives \<open>NaN\<close>, here \<open>None\<close>. The value is an
  exact integer: the rounding of very large values to a double never changes the result of
  \<open>slice\<close> below, which only compares the value with an array length.

  Strings are UTF-8 byte strings. \<open>whiteLen\<close> is the number of bytes of the white
  space character or line terminator at the head of a string, 0 when there is none: TAB,
  LF, VT, FF, CR, SP, U+00A0, U+1680, U+2000 to U+200A, U+2028, U+2029, U+202F, U+205F,
  U+3000 and U+FEFF.
\<close>

definition whiteLen :: "string \<Rightarrow> nat" where
  "whiteLen s =
     (let b = (map of_char s :: nat list) in
      if take 1 b \<in> {[9], [10], [11], [12], [13], [32]} then 1
      else if take 2 b = [194, 160] then 2
      else if take 3 b \<in> {[225, 154, 128], [226, 128, 168], [226, 128, 169], [226, 128, 175],
                          [226, 129, 159], [227, 128, 128], [239, 187, 191]} then 3
      else if take 2 b = [226, 128] \<and> 3 \<le> length b \<and> 128 \<le> b ! 2 \<and> b ! 2 \<le> 138 then 3
      else 0)"

function skipWhite :: "string \<Rightarrow> string" where
  "skipWhite s = (if whiteLen s = 0 then s else skipWhite (drop (whiteLen s) s))"
  by pat_completeness auto
termination
proof (relation "measure length")
  show "wf (measure length)"
    by simp
next
  fix s :: string
  assume "whiteLen s \<noteq> 0"
  moreover from this have "s \<noteq> []"
    by (auto simp: whiteLen_def)
  ultimately show "(drop (whiteLen s) s, s) \<in> measure length"
    by simp
qed

declare skipWhite.simps [simp del]

definition digitVal :: "char \<Rightarrow> nat option" where
  "digitVal c =
     (let n = (of_char c :: nat) in
      if 48 \<le> n \<and> n \<le> 57 then Some (n - 48)
      else if 97 \<le> n \<and> n \<le> 122 then Some (n - 87)
      else if 65 \<le> n \<and> n \<le> 90 then Some (n - 55)
      else None)"

definition isDigit :: "nat \<Rightarrow> char \<Rightarrow> bool" where
  "isDigit R c = (case digitVal c of None \<Rightarrow> False | Some d \<Rightarrow> d < R)"

definition digitsValue :: "nat \<Rightarrow> string \<Rightarrow> nat" where
  "digitsValue R ds = foldl (\<lambda>a c. a * R + (case digitVal c of None \<Rightarrow> 0 | Some d \<Rightarrow> d)) 0 ds"

definition parseInt :: "string \<Rightarrow> int option" where
  "parseInt input =
     (let s1 = skipWhite input;
          sign = (if take 1 s1 = ''-'' then - 1 else (1 :: int));
          s2 = (if take 1 s1 = ''-'' \<or> take 1 s1 = ''+'' then drop 1 s1 else s1);
          hex = (take 2 s2 = ''0x'' \<or> take 2 s2 = ''0X'');
          R = (if hex then 16 else 10);
          s3 = (if hex then drop 2 s2 else s2);
          ds = takeWhile (isDigit R) s3
      in if ds = [] then None else Some (sign * int (digitsValue R ds)))"

subsubsection \<open>\<open>Array.prototype.slice(0, end)\<close>\<close>

text \<open>
  \<open>NaN\<close> counts as 0; a negative end counts from the end of the array and is clamped
  at 0; an end beyond the length is clamped at the length.
\<close>

definition slice0 :: "'a list \<Rightarrow> int option \<Rightarrow> 'a list" where
  "slice0 xs e =
     (let len = int (length xs);
          rel = (case e of None \<Rightarrow> 0 | Some n \<Rightarrow> n);
          final = (if rel < 0 then max (len + rel) 0 else min rel len)
      in take (nat final) xs)"

subsection \<open>Data\<close>

text \<open>An entry of the product list: \<open>{ id, html }\<close>; \<open>id\<close> may be \<open>undefined\<close>.\<close>

record product =
  pid :: "string option"
  html :: string

text \<open>
  The \<open>href\<close> property of an anchor: a string on an HTML anchor; on an SVG anchor an
  \<open>SVGAnimatedString\<close> object, which has no \<open>match\<close> method.
\<close>

datatype href = Href string | AnimatedHref

text \<open>
  A \<open>.resource-card\<close> element of the parsed response: its \<open>outerHTML\<close> and the
  \<open>href\<close> of its first descendant matching \<open>a[href*="/products/"]\<close>, if it has one.
\<close>

record card =
  outerHTML :: string
  link :: "href option"

text \<open>
  What the request of a suspended call settles with when it is not aborted: a rejection of
  \<open>fetch\<close> or of \<open>response.text()\<close>, or a response with its \<open>ok\<close> flag and the
  \<open>.resource-card\<close> elements of its parsed body, in document order.
\<close>

datatype outcome = Rejected | Response bool "card list"

text \<open>The carousel that \<open>#renderProducts\<close> builds.\<close>

record slide =
  ariaHidden :: bool
  timelineName :: nat
  item :: string

datatype containerChild = SlideshowArrows | SlideshowSlides "slide list"

record carousel =
  timeline :: "nat list"
  container :: "containerChild list"

text \<open>A child of the content region: a carousel put there by this widget, or other markup.\<close>

datatype node = Carousel carousel | Markup string

record contentRegion =
  contentHidden :: bool
  children :: "node list"

text \<open>
  A call of \<open>#loadRecommendations\<close> suspended at \<open>await fetch\<close>: the controller whose
  signal the request carries, and the locals the continuation uses.
\<close>

record pending =
  controller :: nat
  cacheKey :: string
  hasLoadingEl :: bool

text \<open>
  The state. \<open>hidden\<close> is the host element's \<open>hidden\<close> attribute;
  \<open>productId\<close>, \<open>url\<close>, \<open>maxProducts\<close>, \<open>sectionId\<close> are its \<open>dataset\<close>;
  \<open>cachedRecommendations\<close> and \<open>activeFetch\<close> are the private fields (an
  \<open>AbortController\<close> is a number). \<open>loadingEl\<close> is the \<open>hidden\<close> flag of the
  element \<open>.cart-upsells__loading\<close> and \<open>contentEl\<close> the element
  \<open>.cart-upsells__content\<close>, \<open>None\<close> when the widget has no such descendant; no
  operation of the widget adds or removes either element.

  \<open>cartTableIds\<close> and \<open>productCardIds\<close> are the \<open>data-product-id\<close> values of
  the document's elements matching \<open>.cart-items__table [data-product-id]\<close> and
  \<open>.product-card[data-product-id]\<close> at the moment of a call. They belong to the page:
  the widget only reads them, and what the page holds at a later call (the cards this
  widget has rendered are then part of it) is for a trace to set between its steps, as it
  sets the \<open>dataset\<close>.

  \<open>parseSlides\<close> is the browser's HTML parser on the string of slides: from the
  \<open>slideshow-slide\<close> tags the widget writes into \<open>tempDiv.innerHTML\<close>, in order,
  the element children that \<open>tempDiv\<close> has afterwards. It gives the written slides
  back when the markup of every card is a balanced fragment; a card whose markup leaves an
  element open (a \<open>plaintext\<close> element) takes later slides into it.

  The remaining fields are the environment of the asynchronous calls: the controllers
  that were aborted, the suspended calls, the URLs fetched so far, the next fresh
  controller, and the number of \<open>console.error\<close> calls.
\<close>

record widget =
  hidden :: bool
  productId :: "string option"
  url :: "string option"
  maxProducts :: "string option"
  sectionId :: "string option"
  cachedRecommendations :: "string \<rightharpoonup> product list"
  activeFetch :: "nat option"
  loadingEl :: "bool option"
  contentEl :: "contentRegion option"
  cartTableIds :: "string list"
  productCardIds :: "string list"
  parseSlides :: "slide list \<Rightarrow> slide list"
  aborted :: "nat set"
  inflight :: "pending list"
  requests :: "string list"
  nextController :: nat
  errorLog :: nat

subsection \<open>\<open>#renderProducts\<close>\<close>

text \<open>The two \<open>forEach\<close> loops that fill \<open>cartItemIds\<close>.\<close>

fun addIds :: "string list \<Rightarrow> string set \<Rightarrow> string set" where
  "addIds [] S = S"
| "addIds (i # is) S = addIds is (if i \<noteq> [] then insert i S else S)"

definition cartItemIds :: "widget \<Rightarrow> string set" where
  "cartItemIds s = addIds (productCardIds s) (addIds (cartTableIds s) {})"

text \<open>The callback of \<open>products.filter\<close>, and the filter itself.\<close>

definition keeps :: "string set \<Rightarrow> product \<Rightarrow> bool" where
  "keeps S p = (if \<not> truthy (pid p) then True else str (pid p) \<notin> S)"

fun filterProducts :: "string set \<Rightarrow> product list \<Rightarrow> product list" where
  "filterProducts S [] = []"
| "filterProducts S (p # ps) = (if keeps S p then p # filterProducts S ps else filterProducts S ps)"

text \<open>\<open>parseInt(this.dataset.maxProducts || 9)\<close> and the \<open>slice\<close>.\<close>

definition maxProductsOf :: "widget \<Rightarrow> int option" where
  "maxProductsOf s = parseInt (if truthy (maxProducts s) then str (maxProducts s) else ''9'')"

definition productsToShow :: "widget \<Rightarrow> product list \<Rightarrow> product list" where
  "productsToShow s filteredProducts = slice0 filteredProducts (maxProductsOf s)"

text \<open>
  The string \<open>slides\<close>: one \<open>slideshow-slide\<close> tag per product, in order, written
  with its index. \<open>writtenSlides\<close> is that string, tag by tag.
\<close>

definition makeSlide :: "nat \<times> product \<Rightarrow> slide" where
  "makeSlide ip = \<lparr>ariaHidden = (fst ip \<ge> 3), timelineName = fst ip, item = html (snd ip)\<rparr>"

definition writtenSlides :: "product list \<Rightarrow> slide list" where
  "writtenSlides ps = map makeSlide (enumerate 0 ps)"

text \<open>
  The carousel. \<open>slideCount\<close> and \<open>needsArrows\<close> are computed from the products;
  the children of \<open>slideshow-slides\<close> are what the parser makes of the string.
\<close>

definition buildCarousel :: "(slide list \<Rightarrow> slide list) \<Rightarrow> product list \<Rightarrow> carousel" where
  "buildCarousel parse ps =
     (let slides = writtenSlides ps;
          slideCount = length ps;
          needsArrows = (slideCount > 3)
      in \<lparr>timeline = [0..<slideCount],
          container = (if needsArrows then [SlideshowArrows] else []) @
            [SlideshowSlides (parse slides)]\<rparr>)"

definition renderProducts :: "product list \<Rightarrow> widget \<Rightarrow> widget" where
  "renderProducts products s =
     (if products = [] then s\<lparr>hidden := True\<rparr>
      else case contentEl s of
        None \<Rightarrow> s
      | Some el \<Rightarrow>
          let filteredProducts = filterProducts (cartItemIds s) products
          in if filteredProducts = [] then s\<lparr>hidden := True\<rparr>
             else s\<lparr>contentEl := Some (el\<lparr>children := children el @
                        [Carousel (buildCarousel (parseSlides s)
                                     (productsToShow s filteredProducts))],
                      contentHidden := False\<rparr>)\<rparr>)"

subsection \<open>\<open>#loadRecommendations\<close>\<close>

definition fetchUrl :: "widget \<Rightarrow> string" where
  "fetchUrl s = str (url s) @ ''&product_id='' @ str (productId s) @ ''&section_id='' @
     (if truthy (sectionId s) then str (sectionId s) else ''cart-upsells'') @
     ''&intent=complementary''"

text \<open>
  The regular expression \<open>/\/products\/([^/?]+)/\<close>: the leftmost place where
  \<open>/products/\<close> is followed by at least one character other than \<open>/\<close> and \<open>?\<close>;
  the group is the longest run of such characters there.
\<close>

fun matchProduct :: "string \<Rightarrow> string option" where
  "matchProduct [] = None"
| "matchProduct (c # cs) =
     (let g = takeWhile (\<lambda>x. x \<noteq> CHR ''/'' \<and> x \<noteq> CHR ''?'') (drop 10 (c # cs))
      in if take 10 (c # cs) = ''/products/'' \<and> g \<noteq> [] then Some g else matchProduct cs)"

text \<open>
  The callback of \<open>productCards.map\<close>. With no matching anchor the id is
  \<open>undefined\<close>; with an anchor whose \<open>href\<close> is a string the id is the group of
  the match, if there is one; with an anchor whose \<open>href\<close> is not a string the call
  \<open>link.href.match\<close> throws a \<open>TypeError\<close>, and so does the whole \<open>map\<close>.
  \<open>toProduct\<close> is the result of a call that returns, \<open>toProducts\<close> the result
  of the \<open>map\<close>, \<open>None\<close> when it throws.
\<close>

definition throws :: "card \<Rightarrow> bool" where
  "throws c = (link c = Some AnimatedHref)"

definition toProduct :: "card \<Rightarrow> product" where
  "toProduct c = \<lparr>pid = (case link c of Some (Href h) \<Rightarrow> matchProduct h | _ \<Rightarrow> None),
                  html = outerHTML c\<rparr>"

definition toProducts :: "card list \<Rightarrow> product list option" where
  "toProducts productCards =
     (if list_ex throws productCards then None else Some (map toProduct productCards))"

text \<open>The call up to \<open>await fetch\<close>.\<close>

definition loadRecommendations :: "widget \<Rightarrow> widget" where
  "loadRecommendations s =
     (if \<not> truthy (productId s) \<or> \<not> truthy (url s) then s\<lparr>hidden := True\<rparr>
      else case cachedRecommendations s (fetchUrl s) of
        Some products \<Rightarrow> renderProducts products s
      | None \<Rightarrow>
          s\<lparr>loadingEl := map_option (\<lambda>_. False) (loadingEl s),
            contentEl := map_option (\<lambda>el. el\<lparr>contentHidden := True\<rparr>) (contentEl s),
            aborted := (case activeFetch s of None \<Rightarrow> aborted s | Some c \<Rightarrow> insert c (aborted s)),
            activeFetch := Some (nextController s),
            nextController := Suc (nextController s),
            requests := requests s @ [fetchUrl s],
            inflight := inflight s @
              [\<lparr>controller = nextController s, cacheKey = fetchUrl s,
                hasLoadingEl = (loadingEl s \<noteq> None)\<rparr>]\<rparr>)"

text \<open>
  The rest of the call, run when the request made under controller \<open>c\<close> settles. A
  request whose controller was aborted rejects with an \<open>AbortError\<close> whatever the
  network did, and the \<open>catch\<close> block does nothing for it. \<open>tryBody\<close> is the
  \<open>try\<close> block of a request that was not aborted, together with the \<open>catch\<close> of
  its errors (logged, widget hidden); \<open>finallyBlock\<close> is the \<open>finally\<close> block,
  which runs in every case.
\<close>

definition tryBody :: "pending \<Rightarrow> outcome \<Rightarrow> widget \<Rightarrow> widget" where
  "tryBody p out s =
     (case out of
        Rejected \<Rightarrow> s\<lparr>errorLog := Suc (errorLog s), hidden := True\<rparr>
      | Response ok productCards \<Rightarrow>
          if \<not> ok then s\<lparr>errorLog := Suc (errorLog s), hidden := True\<rparr>
          else if productCards = [] then s\<lparr>hidden := True\<rparr>
          else case toProducts productCards of
            None \<Rightarrow> s\<lparr>errorLog := Suc (errorLog s), hidden := True\<rparr>
          | Some products \<Rightarrow>
              renderProducts products
                (s\<lparr>cachedRecommendations := (cachedRecommendations s)(cacheKey p \<mapsto> products)\<rparr>))"

definition finallyBlock :: "pending \<Rightarrow> widget \<Rightarrow> widget" where
  "finallyBlock p s =
     s\<lparr>activeFetch := None,
       loadingEl := (if hasLoadingEl p then map_option (\<lambda>_. True) (loadingEl s) else loadingEl s)\<rparr>"

definition settle :: "nat \<Rightarrow> outcome \<Rightarrow> widget \<Rightarrow> widget" where
  "settle c out s =
     (case find (\<lambda>p. controller p = c) (inflight s) of
        None \<Rightarrow> s
      | Some p \<Rightarrow>
          let s0 = s\<lparr>inflight := filter (\<lambda>q. controller q \<noteq> c) (inflight s)\<rparr>
          in finallyBlock p (if c \<in> aborted s then s0 else tryBody p out s0))"

subsection \<open>\<open>connectedCallback\<close>\<close>

definition connectedCallback :: "widget \<Rightarrow> widget" where
  "connectedCallback s =
     (if hidden s \<or> \<not> truthy (productId s) then s else loadRecommendations s)"

subsection \<open>A concrete widget\<close>

text \<open>
  A freshly attached widget with both regions, the loading indicator hidden, an empty
  cart table, and a parser that meets only balanced markup.
\<close>

definition fresh :: widget where
  "fresh = \<lparr>hidden = False, productId = Some ''123'', url = Some ''/recs?x=1'',
     maxProducts = None, sectionId = None, cachedRecommendations = Map.empty,
     activeFetch = None, loadingEl = Some True,
     contentEl = Some \<lparr>contentHidden = True, children = []\<rparr>,
     cartTableIds = [], productCardIds = [], parseSlides = (\<lambda>written. written),
     aborted = {}, inflight = [],
     requests = [], nextController = 0, errorLog = 0\<rparr>"

definition cardOf :: "string \<Rightarrow> card" where
  "cardOf h = \<lparr>outerHTML = ''<div class=resource-card>'' @ h @ ''</div>'',
               link = Some (Href (''https://shop.example/products/'' @ h @ ''?variant=1''))\<rparr>"

text \<open>
  Three activations in a row, each with another product in the cart context and each before
  the earlier request has settled: \<open>raceB\<close> is the state after the second activation
  (the request under controller 0 aborted, the one under controller 1 in flight), and
  \<open>raceC out\<close> the state after the aborted request has settled (the network having
  answered \<open>out\<close>) and the third activation has begun.
\<close>

definition raceB :: widget where
  "raceB = connectedCallback ((connectedCallback fresh)\<lparr>productId := Some ''456''\<rparr>)"

definition raceC :: "outcome \<Rightarrow> widget" where
  "raceC out = connectedCallback ((settle 0 out raceB)\<lparr>productId := Some ''789''\<rparr>)"

subsection \<open>Reading a carousel\<close>

definition hasArrows :: "carousel \<Rightarrow> bool" where
  "hasArrows c = (SlideshowArrows \<in> set (container c))"

fun slidesIn :: "containerChild list \<Rightarrow> slide list" where
  "slidesIn [] = []"
| "slidesIn (SlideshowArrows # cs) = slidesIn cs"
| "slidesIn (SlideshowSlides sl # cs) = sl @ slidesIn cs"

definition slidesOf :: "carousel \<Rightarrow> slide list" where
  "slidesOf c = slidesIn (container c)"

subsection \<open>Decimal numerals\<close>

text \<open>
  The decimal numeral of a natural number, as a theme writes it into the attribute
  \<open>data-max-products\<close>. It is used to state what \<open>parseInt\<close> reads back.
\<close>

definition digitChar :: "nat \<Rightarrow> char" where
  "digitChar d = ''0123456789'' ! d"

fun dec :: "nat \<Rightarrow> string" where
  "dec n = (if n < 10 then [digitChar n] else dec (n div 10) @ [digitChar (n mod 10)])"

definition decimal :: "string \<Rightarrow> bool" where
  "decimal ds = (ds \<noteq> [] \<and> list_all (\<lambda>c. c \<in> digitChar ` {..<10}) ds)"

declare dec.simps [simp del]

section \<open>Properties\<close>

subsection \<open>Reading decimal numerals\<close>

lemma below_ten: "d < 10 \<Longrightarrow> d \<in> {0, 1, 2, 3, 4, 5, 6, 7, 8, 9 :: nat}"
  by auto

lemma digitVal_digitChar: "d < 10 \<Longrightarrow> digitVal (digitChar d) = Some d"
  by (drule below_ten) (auto simp: digitVal_def digitChar_def)

lemma digitChar_plain:
  "d < 10 \<Longrightarrow> digitChar d \<noteq> CHR ''-'' \<and> digitChar d \<noteq> CHR ''+''
     \<and> digitChar d \<noteq> CHR ''x'' \<and> digitChar d \<noteq> CHR ''X''"
  by (drule below_ten) (auto simp: digitChar_def)

lemma digitChar_byte: "d < 10 \<Longrightarrow> of_char (digitChar d) = 48 + d"
  by (drule below_ten) (auto simp: digitChar_def)

lemma whiteLen_digit: "d < 10 \<Longrightarrow> whiteLen (digitChar d # cs) = 0"
  by (simp add: whiteLen_def digitChar_byte Let_def numeral_2_eq_2 numeral_3_eq_3)

lemma skipWhite_digit: "d < 10 \<Longrightarrow> skipWhite (digitChar d # cs) = digitChar d # cs"
  by (simp add: skipWhite.simps [of "digitChar d # cs"] whiteLen_digit)

lemma decimal_dec: "decimal (dec n)"
proof (induction n rule: dec.induct)
  case (1 n)
  show ?case
  proof (cases "n < 10")
    case True
    then show ?thesis by (simp add: dec.simps [of n] decimal_def)
  next
    case False
    with 1 show ?thesis by (simp add: dec.simps [of n] decimal_def)
  qed
qed

lemma dec_nonempty: "dec n \<noteq> []"
  using decimal_dec [of n] by (simp add: decimal_def)

lemma digitsValue_snoc:
  "digitsValue R (ds @ [c]) =
     digitsValue R ds * R + (case digitVal c of None \<Rightarrow> 0 | Some d \<Rightarrow> d)"
  by (simp add: digitsValue_def)

lemma digitsValue_dec: "digitsValue 10 (dec n) = n"
proof (induction n rule: dec.induct)
  case (1 n)
  show ?case
  proof (cases "n < 10")
    case True
    then show ?thesis
      by (simp add: dec.simps [of n] digitsValue_def digitVal_digitChar)
  next
    case False
    with 1 show ?thesis
      by (simp add: dec.simps [of n] digitsValue_snoc digitVal_digitChar)
  qed
qed

lemma second_char_not_x:
  assumes "\<forall>x \<in> set ds. \<exists>d < 10. x = digitChar d"
  shows "take 2 ds \<noteq> [a, CHR ''x''] \<and> take 2 ds \<noteq> [a, CHR ''X'']"
proof (cases ds)
  case Nil
  then show ?thesis by simp
next
  case (Cons c cs)
  show ?thesis
  proof (cases cs)
    case Nil
    with \<open>ds = c # cs\<close> show ?thesis by simp
  next
    case (Cons e es)
    with assms \<open>ds = c # cs\<close> obtain k where "k < 10" "e = digitChar k" by auto
    then show ?thesis
      using digitChar_plain [of k] Cons \<open>ds = c # cs\<close> by (simp add: numeral_2_eq_2)
  qed
qed

lemma parseInt_decimal:
  assumes "decimal ds"
  shows "parseInt ds = Some (int (digitsValue 10 ds))"
proof -
  from assms obtain c cs where ds: "ds = c # cs"
    by (cases ds) (auto simp: decimal_def)
  have all: "\<forall>x \<in> set ds. \<exists>d < 10. x = digitChar d"
    using assms by (auto simp: decimal_def list_all_iff)
  then obtain d where d: "d < 10" "c = digitChar d"
    using ds by auto
  have white: "skipWhite ds = ds"
    using skipWhite_digit [OF d(1)] d(2) ds by simp
  have sign: "take 1 ds \<noteq> ''-''" "take 1 ds \<noteq> ''+''"
    using digitChar_plain [OF d(1)] d(2) ds by simp_all
  have hex: "take 2 ds \<noteq> ''0x''" "take 2 ds \<noteq> ''0X''"
    using second_char_not_x [OF all, of "CHR ''0''"] by simp_all
  have digs: "takeWhile (isDigit 10) ds = ds"
    using all by (auto simp: takeWhile_eq_all_conv isDigit_def digitVal_digitChar)
  have ne: "ds \<noteq> []" using ds by simp
  show ?thesis
    unfolding parseInt_def Let_def white
    by (simp only: sign hex digs ne if_False simp_thms mult_1)
qed

lemma parseInt_dec: "parseInt (dec n) = Some (int n)"
  by (simp add: parseInt_decimal decimal_dec digitsValue_dec)

lemma parseInt_nine: "parseInt ''9'' = Some 9"
  using parseInt_dec [of 9] by (simp add: dec.simps [of 9] digitChar_def)

lemma parseInt_zero: "parseInt ''0'' = Some 0"
  using parseInt_dec [of 0] by (simp add: dec.simps [of 0] digitChar_def)

lemmas widget_defs = connectedCallback_def loadRecommendations_def settle_def finallyBlock_def
  tryBody_def renderProducts_def fetchUrl_def truthy_def str_def toProducts_def throws_def

lemmas render_defs = toProduct_def cardOf_def cartItemIds_def keeps_def productsToShow_def
  maxProductsOf_def parseInt_zero parseInt_nine slice0_def buildCarousel_def writtenSlides_def
  makeSlide_def enumerate_eq_zip Let_def

subsection \<open>What rendering leaves alone\<close>

lemma renderProducts_frame:
  "requests (renderProducts ps s) = requests s"
  "inflight (renderProducts ps s) = inflight s"
  "cachedRecommendations (renderProducts ps s) = cachedRecommendations s"
  "loadingEl (renderProducts ps s) = loadingEl s"
  "activeFetch (renderProducts ps s) = activeFetch s"
  by (simp_all add: renderProducts_def Let_def split: option.splits)

lemma toProduct_cardOf_a:
  "toProduct (cardOf ''a'') = \<lparr>pid = Some ''a'', html = ''<div class=resource-card>a</div>''\<rparr>"
  by (simp add: toProduct_def cardOf_def)

subsection \<open>The filter\<close>

lemma addIds_eq: "addIds is S = S \<union> {i \<in> set is. i \<noteq> []}"
  by (induction "is" arbitrary: S) auto

lemma empty_notin_cartItemIds: "[] \<notin> cartItemIds s"
  by (simp add: cartItemIds_def addIds_eq)

lemma keeps_cart:
  "keeps (cartItemIds s) p = (case pid p of None \<Rightarrow> True | Some i \<Rightarrow> i \<notin> cartItemIds s)"
  using empty_notin_cartItemIds [of s]
  by (auto simp: keeps_def truthy_def str_def split: option.splits)

lemma filterProducts_filter: "filterProducts S ps = filter (keeps S) ps"
  by (induction ps) auto

lemma matchProduct_nonempty: "matchProduct h \<noteq> Some []"
  by (induction h) (auto simp: Let_def)

lemma pid_toProduct_nonempty: "pid (toProduct c) \<noteq> Some []"
  by (simp add: toProduct_def matchProduct_nonempty split: option.splits href.splits)

lemma keeps_toProduct:
  "keeps S (toProduct c) = (case pid (toProduct c) of None \<Rightarrow> True | Some i \<Rightarrow> i \<notin> S)"
  using pid_toProduct_nonempty [of c]
  by (auto simp: keeps_def truthy_def str_def split: option.splits)

text \<open>
  Claim C7. The filter keeps exactly the products whose id is absent or is not in the
  cart-id set, in their order in the input: for every product sequence \<open>P\<close> and the
  cart-id set computed from the page (which never holds the empty id), and for every set
  \<open>S\<close> and the products parsed from a response (whose id is never the empty string).
  For every \<open>P\<close> and \<open>S\<close> the result is a subsequence of \<open>P\<close> and keeps every
  product with no id.
\<close>

theorem filter_stable:
  "filterProducts (cartItemIds s) P =
     filter (\<lambda>p. case pid p of None \<Rightarrow> True | Some i \<Rightarrow> i \<notin> cartItemIds s) P
   \<and> filterProducts S (map toProduct cards) =
     filter (\<lambda>p. case pid p of None \<Rightarrow> True | Some i \<Rightarrow> i \<notin> S) (map toProduct cards)
   \<and> subseq (filterProducts S P) P
   \<and> set (filterProducts S P) \<supseteq> {p \<in> set P. pid p = None}"
proof -
  have page: "filterProducts (cartItemIds s) P =
     filter (\<lambda>p. case pid p of None \<Rightarrow> True | Some i \<Rightarrow> i \<notin> cartItemIds s) P"
    by (simp add: filterProducts_filter keeps_cart cong: filter_cong)
  have parsed: "filterProducts S (map toProduct cards) =
     filter (\<lambda>p. case pid p of None \<Rightarrow> True | Some i \<Rightarrow> i \<notin> S) (map toProduct cards)"
    unfolding filterProducts_filter
    by (rule filter_cong) (auto simp: keeps_toProduct)
  have stable: "subseq (filterProducts S P) P"
    by (simp add: filterProducts_filter)
  have fail_open: "set (filterProducts S P) \<supseteq> {p \<in> set P. pid p = None}"
    by (auto simp: filterProducts_filter keeps_def truthy_def)
  from page parsed stable fail_open show ?thesis
    by simp
qed

theorem filter_stable_witness:
  "filterProducts (cartItemIds (fresh\<lparr>cartTableIds := [''b'', []]\<rparr>))
     [\<lparr>pid = Some ''a'', html = ''A''\<rparr>, \<lparr>pid = Some ''b'', html = ''B''\<rparr>,
      \<lparr>pid = None, html = ''C''\<rparr>]
   = [\<lparr>pid = Some ''a'', html = ''A''\<rparr>, \<lparr>pid = None, html = ''C''\<rparr>]"
  using filter_stable [where s = "fresh\<lparr>cartTableIds := [''b'', []]\<rparr>" and P =
      "[\<lparr>pid = Some ''a'', html = ''A''\<rparr>, \<lparr>pid = Some ''b'', html = ''B''\<rparr>,
        \<lparr>pid = None, html = ''C''\<rparr>]"]
  by (simp add: cartItemIds_def fresh_def)

subsection \<open>The cap\<close>

lemma slice0_take: "slice0 xs (Some (int n)) = take n xs"
  by (simp add: slice0_def Let_def min_def)

lemma productsToShow_dec:
  "maxProducts s = Some (dec n) \<Longrightarrow> productsToShow s kept = take n kept"
  by (simp add: productsToShow_def maxProductsOf_def truthy_def str_def parseInt_dec
      dec_nonempty slice0_take)

lemma productsToShow_default:
  "\<not> truthy (maxProducts s) \<Longrightarrow> productsToShow s kept = take 9 kept"
  using slice0_take [of kept 9]
  by (simp add: productsToShow_def maxProductsOf_def parseInt_nine)

lemma renderProducts_renders:
  assumes "products \<noteq> []" and "contentEl s = Some el"
    and "filterProducts (cartItemIds s) products \<noteq> []"
  shows "contentEl (renderProducts products s) =
           Some \<lparr>contentHidden = False,
                 children = children el @
                   [Carousel (buildCarousel (parseSlides s)
                      (productsToShow s (filterProducts (cartItemIds s) products)))]\<rparr>"
  using assms by (simp add: renderProducts_def Let_def)

lemma timeline_build: "timeline (buildCarousel parse ps) = [0..<length ps]"
  by (simp add: buildCarousel_def Let_def)

text \<open>
  Claim C8. Let \<open>kept\<close> be the output of the cart filter on the product sequence, not
  empty, so that \<open>#renderProducts\<close> renders. For every natural number \<open>n\<close> written in
  \<open>data-max-products\<close> as its decimal numeral, and for \<open>n = 9\<close> when the attribute is
  absent or empty, the displayed sequence is the first \<open>n\<close> elements of \<open>kept\<close>: it
  has exactly \<open>min (length kept) n\<close> elements, so never more than \<open>n\<close>, and the
  carousel appended to the content region is built from it, with that slide count.
\<close>

theorem cap_enforcement:
  assumes "maxProducts s = Some (dec n) \<or> \<not> truthy (maxProducts s) \<and> n = 9"
    and "products \<noteq> []" and "contentEl s = Some el"
    and "kept = filterProducts (cartItemIds s) products" and "kept \<noteq> []"
  shows "productsToShow s kept = take n kept
         \<and> length (productsToShow s kept) = min (length kept) n
         \<and> length (productsToShow s kept) \<le> n
         \<and> contentEl (renderProducts products s) =
             Some \<lparr>contentHidden = False,
                   children = children el @
                     [Carousel (buildCarousel (parseSlides s) (take n kept))]\<rparr>
         \<and> timeline (buildCarousel (parseSlides s) (take n kept)) = [0..<min (length kept) n]"
proof -
  have shown: "productsToShow s kept = take n kept"
    using assms(1) by (auto simp: productsToShow_dec productsToShow_default)
  have rendered: "contentEl (renderProducts products s) =
      Some \<lparr>contentHidden = False,
            children = children el @
              [Carousel (buildCarousel (parseSlides s) (productsToShow s kept))]\<rparr>"
    using assms(2-5) by (simp add: renderProducts_renders)
  show ?thesis
    using rendered by (simp add: shown timeline_build)
qed

theorem cap_enforcement_witness:
  "dec 2 = ''2'' \<and> dec 12 = ''12''
   \<and> contentEl (renderProducts (map (toProduct \<circ> cardOf) [''a'', ''b'', ''c''])
        (fresh\<lparr>maxProducts := Some ''2''\<rparr>)) =
       Some \<lparr>contentHidden = False,
             children = [Carousel (buildCarousel (parseSlides fresh)
                           (map (toProduct \<circ> cardOf) [''a'', ''b'']))]\<rparr>
   \<and> contentEl (renderProducts (map (toProduct \<circ> cardOf) [''a'', ''b'', ''c''])
        (fresh\<lparr>maxProducts := Some ''12''\<rparr>)) =
       Some \<lparr>contentHidden = False,
             children = [Carousel (buildCarousel (parseSlides fresh)
                           (map (toProduct \<circ> cardOf) [''a'', ''b'', ''c'']))]\<rparr>
   \<and> contentEl (renderProducts (map (toProduct \<circ> cardOf) [''a'', ''b'', ''c'']) fresh) =
       Some \<lparr>contentHidden = False,
             children = [Carousel (buildCarousel (parseSlides fresh)
                           (map (toProduct \<circ> cardOf) [''a'', ''b'', ''c'']))]\<rparr>"
proof -
  let ?ps = "map (toProduct \<circ> cardOf) [''a'', ''b'', ''c'']"
  let ?el = "\<lparr>contentHidden = True, children = []\<rparr>"
  have d: "dec 2 = ''2''" "dec 12 = ''12''"
    by (simp_all add: dec.simps [of 2] dec.simps [of 12] dec.simps [of "Suc 0"] digitChar_def)
  have k: "filterProducts (cartItemIds (fresh\<lparr>maxProducts := m\<rparr>)) ?ps = ?ps" for m
    by (simp add: cartItemIds_def fresh_def keeps_def truthy_def str_def toProduct_def cardOf_def)
  have k0: "filterProducts (cartItemIds fresh) ?ps = ?ps"
    by (simp add: cartItemIds_def fresh_def keeps_def truthy_def str_def toProduct_def cardOf_def)
  have c: "contentEl (fresh\<lparr>maxProducts := m\<rparr>) = Some ?el" "contentEl fresh = Some ?el" for m
    by (simp_all add: fresh_def)
  have t: "\<not> truthy (maxProducts fresh)"
    by (simp add: fresh_def truthy_def)
  have two: "maxProducts (fresh\<lparr>maxProducts := Some ''2''\<rparr>) = Some (dec 2)"
    and twelve: "maxProducts (fresh\<lparr>maxProducts := Some ''12''\<rparr>) = Some (dec 12)"
    by (simp_all add: d)
  show ?thesis
    using cap_enforcement [where s = "fresh\<lparr>maxProducts := Some ''2''\<rparr>" and n = 2
        and products = ?ps and el = ?el and kept = ?ps]
      cap_enforcement [where s = "fresh\<lparr>maxProducts := Some ''12''\<rparr>" and n = 12
        and products = ?ps and el = ?el and kept = ?ps]
      cap_enforcement [where s = fresh and n = 9 and products = ?ps and el = ?el and kept = ?ps]
      d k k0 c t two twelve
    by simp
qed

subsection \<open>The carousel\<close>

lemma slidesOf_build: "slidesOf (buildCarousel parse ps) = parse (writtenSlides ps)"
  by (simp add: slidesOf_def buildCarousel_def Let_def)

lemma hasArrows_build: "hasArrows (buildCarousel parse ps) = (length ps > 3)"
  by (simp add: hasArrows_def buildCarousel_def Let_def)

lemma writtenSlides_nth:
  "i < length ps \<Longrightarrow> ariaHidden (writtenSlides ps ! i) = (i \<ge> 3)
     \<and> timelineName (writtenSlides ps ! i) = i \<and> item (writtenSlides ps ! i) = html (ps ! i)"
  by (simp add: writtenSlides_def makeSlide_def nth_enumerate_eq)

text \<open>
  Claim C9. When \<open>#renderProducts\<close> renders, the carousel it appends to the content
  region has navigation arrows iff the slide count, the number of products shown, is
  greater than 3 (so none for exactly three products, and arrows for four). One slide is
  written per product shown, in order, and the slide written at index \<open>i\<close> is marked
  \<open>aria-hidden\<close> iff \<open>i \<ge> 3\<close>. The slide elements of the carousel are what the
  browser's parser makes of the written slides: the written slides themselves when the
  parser gives them back.
\<close>

theorem arrow_threshold:
  assumes "products \<noteq> []" and "contentEl s = Some el"
    and "kept = filterProducts (cartItemIds s) products" and "kept \<noteq> []"
    and "shown = productsToShow s kept"
  shows "contentEl (renderProducts products s) =
           Some \<lparr>contentHidden = False,
                 children = children el @ [Carousel (buildCarousel (parseSlides s) shown)]\<rparr>
         \<and> hasArrows (buildCarousel (parseSlides s) shown) = (length shown > 3)
         \<and> slidesOf (buildCarousel (parseSlides s) shown) = parseSlides s (writtenSlides shown)
         \<and> length (writtenSlides shown) = length shown
         \<and> (\<forall>i < length shown. ariaHidden (writtenSlides shown ! i) = (i \<ge> 3)
                              \<and> item (writtenSlides shown ! i) = html (shown ! i))
         \<and> (parseSlides s (writtenSlides shown) = writtenSlides shown \<longrightarrow>
              length (slidesOf (buildCarousel (parseSlides s) shown)) = length shown
              \<and> (\<forall>i < length shown.
                    ariaHidden (slidesOf (buildCarousel (parseSlides s) shown) ! i) = (i \<ge> 3)))"
proof -
  have rendered: "contentEl (renderProducts products s) =
      Some \<lparr>contentHidden = False,
            children = children el @ [Carousel (buildCarousel (parseSlides s) shown)]\<rparr>"
    using assms by (simp add: renderProducts_renders)
  have len: "length (writtenSlides shown) = length shown"
    by (simp add: writtenSlides_def)
  show ?thesis
    using rendered by (simp add: hasArrows_build slidesOf_build len writtenSlides_nth)
qed

theorem arrow_threshold_witness:
  "contentEl (renderProducts (map (toProduct \<circ> cardOf) [''a'', ''b'', ''c'']) fresh) =
     Some \<lparr>contentHidden = False,
           children = [Carousel (buildCarousel (parseSlides fresh)
                         (map (toProduct \<circ> cardOf) [''a'', ''b'', ''c'']))]\<rparr>
   \<and> \<not> hasArrows (buildCarousel (parseSlides fresh)
           (map (toProduct \<circ> cardOf) [''a'', ''b'', ''c'']))
   \<and> hasArrows (buildCarousel (parseSlides fresh)
         (map (toProduct \<circ> cardOf) [''a'', ''b'', ''c'', ''d'']))
   \<and> \<not> ariaHidden (slidesOf (buildCarousel (parseSlides fresh)
           (map (toProduct \<circ> cardOf) [''a'', ''b'', ''c'', ''d''])) ! 2)
   \<and> ariaHidden (slidesOf (buildCarousel (parseSlides fresh)
         (map (toProduct \<circ> cardOf) [''a'', ''b'', ''c'', ''d''])) ! 3)"
proof -
  let ?p3 = "map (toProduct \<circ> cardOf) [''a'', ''b'', ''c'']"
  let ?p4 = "map (toProduct \<circ> cardOf) [''a'', ''b'', ''c'', ''d'']"
  let ?el = "\<lparr>contentHidden = True, children = []\<rparr>"
  have k: "filterProducts (cartItemIds fresh) ?p3 = ?p3" "filterProducts (cartItemIds fresh) ?p4 = ?p4"
    by (simp_all add: cartItemIds_def fresh_def keeps_def truthy_def str_def toProduct_def
        cardOf_def)
  have sh: "productsToShow fresh ?p3 = ?p3" "productsToShow fresh ?p4 = ?p4"
    by (simp_all add: productsToShow_default fresh_def truthy_def)
  have c: "contentEl fresh = Some ?el"
    by (simp add: fresh_def)
  have parse: "parseSlides fresh w = w" for w
    by (simp add: fresh_def)
  have i: "(2::nat) < length ?p4" "(3::nat) < length ?p4"
    by simp_all
  show ?thesis
    using arrow_threshold [where s = fresh and products = ?p3 and el = ?el and kept = ?p3
        and shown = ?p3]
      arrow_threshold [where s = fresh and products = ?p4 and el = ?el and kept = ?p4
        and shown = ?p4]
      k sh c i
    by (simp add: parse)
qed

text \<open>
  Claim C10. When the widget has no content region, rendering a non-empty product
  sequence changes nothing: no carousel is built, and the widget is not marked hidden.
\<close>

theorem render_without_content_region:
  "products \<noteq> [] \<Longrightarrow> contentEl s = None \<Longrightarrow> renderProducts products s = s"
  by (simp add: renderProducts_def)

theorem render_without_content_region_witness:
  "renderProducts [toProduct (cardOf ''a'')] (fresh\<lparr>contentEl := None\<rparr>)
     = fresh\<lparr>contentEl := None\<rparr>
   \<and> \<not> hidden (renderProducts [toProduct (cardOf ''a'')] (fresh\<lparr>contentEl := None\<rparr>))"
  using render_without_content_region
    [of "[toProduct (cardOf ''a'')]" "fresh\<lparr>contentEl := None\<rparr>"]
  by (simp add: fresh_def)

subsection \<open>Missing parameters\<close>

text \<open>
  With no item id the guard of \<open>connectedCallback\<close> returns before
  \<open>#loadRecommendations\<close> is called, so the widget is left as it was.
\<close>

theorem missing_itemId_not_hidden_counterexample:
  "\<not> hidden (connectedCallback (fresh\<lparr>productId := None\<rparr>))"
  by (simp add: connectedCallback_def fresh_def truthy_def)

text \<open>
  Claim C6, amended. If the item id or the endpoint URL is absent at activation, no
  network request is issued. When the item id is absent the widget is left exactly as it
  was (it is not marked hidden); when the item id is present, the endpoint URL is absent
  and the widget is not already hidden, the widget is marked hidden immediately.
\<close>

theorem missing_parameters_inert:
  "(\<not> truthy (productId s) \<longrightarrow> connectedCallback s = s)
   \<and> (truthy (productId s) \<and> \<not> truthy (url s) \<and> \<not> hidden s
        \<longrightarrow> connectedCallback s = s\<lparr>hidden := True\<rparr>)
   \<and> (\<not> truthy (productId s) \<or> \<not> truthy (url s)
        \<longrightarrow> requests (connectedCallback s) = requests s
            \<and> inflight (connectedCallback s) = inflight s)"
  by (simp add: connectedCallback_def loadRecommendations_def)

theorem missing_parameters_inert_witness:
  "connectedCallback (fresh\<lparr>productId := None\<rparr>) = fresh\<lparr>productId := None\<rparr>
   \<and> connectedCallback (fresh\<lparr>url := Some []\<rparr>) = fresh\<lparr>url := Some [], hidden := True\<rparr>
   \<and> requests (connectedCallback (fresh\<lparr>url := Some []\<rparr>)) = []"
  using missing_parameters_inert [of "fresh\<lparr>productId := None\<rparr>"]
    missing_parameters_inert [of "fresh\<lparr>url := Some []\<rparr>"]
  by (simp add: truthy_def fresh_def)

subsection \<open>Rendering into the content region\<close>

text \<open>
  A fetch succeeds and renders; a fetch for another item is started; the first item comes
  back and is served from the cache while that second fetch is still in flight. The content
  region then holds two carousels, and the loading indicator is showing.
\<close>

theorem render_accumulates_counterexample:
  "let s1 = settle 0 (Response True [cardOf ''a'']) (connectedCallback fresh);
       s2 = connectedCallback (s1\<lparr>productId := Some ''456''\<rparr>);
       s3 = connectedCallback (s2\<lparr>productId := Some ''123''\<rparr>)
   in contentEl s3 = Some \<lparr>contentHidden = False,
        children = [Carousel (buildCarousel (parseSlides fresh) [toProduct (cardOf ''a'')]),
                    Carousel (buildCarousel (parseSlides fresh) [toProduct (cardOf ''a'')])]\<rparr>
      \<and> loadingEl s3 = Some False"
  by (simp add: widget_defs fresh_def Let_def cartItemIds_def keeps_def productsToShow_def
      maxProductsOf_def parseInt_nine slice0_def toProduct_def cardOf_def)

text \<open>
  Claim C5, amended. When the carousel is rendered, one carousel built from the current
  product sequence is appended to the content region after its prior content, which is
  kept, and the content region is made visible; rendering itself leaves the loading
  indicator as it is. The loading indicator that existed when a fetch began is hidden when
  that fetch settles.
\<close>

theorem render_appends_carousel:
  "(products \<noteq> [] \<and> contentEl s = Some el \<and> filterProducts (cartItemIds s) products \<noteq> []
      \<longrightarrow> contentEl (renderProducts products s) =
            Some \<lparr>contentHidden = False,
                  children = children el @
                    [Carousel (buildCarousel (parseSlides s)
                       (productsToShow s (filterProducts (cartItemIds s) products)))]\<rparr>
          \<and> loadingEl (renderProducts products s) = loadingEl s
          \<and> hidden (renderProducts products s) = hidden s)
   \<and> (find (\<lambda>p. controller p = c) (inflight s) = Some p \<and> hasLoadingEl p
      \<longrightarrow> loadingEl (settle c out s) = map_option (\<lambda>_. True) (loadingEl s))"
proof -
  have render: "products \<noteq> [] \<and> contentEl s = Some el
      \<and> filterProducts (cartItemIds s) products \<noteq> []
      \<longrightarrow> contentEl (renderProducts products s) =
            Some \<lparr>contentHidden = False,
                  children = children el @
                    [Carousel (buildCarousel (parseSlides s)
                       (productsToShow s (filterProducts (cartItemIds s) products)))]\<rparr>
          \<and> loadingEl (renderProducts products s) = loadingEl s
          \<and> hidden (renderProducts products s) = hidden s"
    by (simp add: renderProducts_def Let_def)
  have settled: "find (\<lambda>p. controller p = c) (inflight s) = Some p \<and> hasLoadingEl p
      \<longrightarrow> loadingEl (settle c out s) = map_option (\<lambda>_. True) (loadingEl s)"
    by (simp add: settle_def finallyBlock_def tryBody_def renderProducts_frame Let_def
        split: outcome.splits option.splits)
  from render settled show ?thesis
    by (rule conjI)
qed

theorem render_appends_carousel_witness:
  "contentEl (renderProducts [toProduct (cardOf ''a'')]
       (fresh\<lparr>contentEl := Some \<lparr>contentHidden = True, children = [Markup ''old'']\<rparr>\<rparr>))
     = Some \<lparr>contentHidden = False,
         children = [Markup ''old'',
           Carousel (buildCarousel (parseSlides fresh) [toProduct (cardOf ''a'')])]\<rparr>
   \<and> loadingEl (settle 0 (Response True [cardOf ''a'']) (connectedCallback fresh)) = Some True"
proof -
  let ?s = "fresh\<lparr>contentEl := Some \<lparr>contentHidden = True, children = [Markup ''old'']\<rparr>\<rparr>"
  let ?p = "\<lparr>controller = 0, cacheKey = fetchUrl fresh, hasLoadingEl = True\<rparr>"
  have c: "contentEl ?s = Some \<lparr>contentHidden = True, children = [Markup ''old'']\<rparr>"
    by simp
  have f: "filterProducts (cartItemIds ?s) [toProduct (cardOf ''a'')] = [toProduct (cardOf ''a'')]"
    by (simp add: cartItemIds_def fresh_def keeps_def truthy_def str_def toProduct_cardOf_a)
  have p: "productsToShow ?s [toProduct (cardOf ''a'')] = [toProduct (cardOf ''a'')]"
    by (simp add: productsToShow_def maxProductsOf_def fresh_def truthy_def parseInt_nine
        slice0_def)
  have i: "find (\<lambda>p. controller p = 0) (inflight (connectedCallback fresh)) = Some ?p"
    and l: "loadingEl (connectedCallback fresh) = Some False"
    by (simp_all add: connectedCallback_def loadRecommendations_def fresh_def truthy_def)
  show ?thesis
    using render_appends_carousel [where products = "[toProduct (cardOf ''a'')]" and s = ?s
        and el = "\<lparr>contentHidden = True, children = [Markup ''old'']\<rparr>"]
      render_appends_carousel [where c = 0 and s = "connectedCallback fresh" and p = ?p
        and out = "Response True [cardOf ''a'']"]
      c f p i l
    by simp
qed

subsection \<open>The cache\<close>

text \<open>
  A response with no product card hides the widget and returns before the cache is
  written.
\<close>

theorem empty_response_cached_counterexample:
  "\<not> (let s = settle 0 (Response True []) (connectedCallback fresh)
      in hidden s \<and> cachedRecommendations s (fetchUrl fresh) = Some [])"
  by (simp add: widget_defs fresh_def Let_def)

text \<open>
  Claim C3, amended. When a fetch that was not aborted succeeds with an HTTP-success
  status and the parsed response contains zero product cards, the widget ends hidden and
  the cache is left as it was: no entry, not even the empty sequence, is recorded for that
  request key.
\<close>

theorem empty_response_hides_without_caching:
  assumes "find (\<lambda>p. controller p = c) (inflight s) = Some p" and "c \<notin> aborted s"
  shows "hidden (settle c (Response True []) s)
         \<and> cachedRecommendations (settle c (Response True []) s) = cachedRecommendations s"
  using assms by (simp add: settle_def finallyBlock_def tryBody_def Let_def)

theorem empty_response_hides_without_caching_witness:
  "hidden (settle 0 (Response True []) (connectedCallback fresh))
   \<and> cachedRecommendations (settle 0 (Response True []) (connectedCallback fresh))
        (fetchUrl fresh) = None"
proof -
  have f: "find (\<lambda>p. controller p = 0) (inflight (connectedCallback fresh))
           = Some \<lparr>controller = 0, cacheKey = fetchUrl fresh, hasLoadingEl = True\<rparr>"
    and a: "0 \<notin> aborted (connectedCallback fresh)"
    and c: "cachedRecommendations (connectedCallback fresh) (fetchUrl fresh) = None"
    by (simp_all add: connectedCallback_def loadRecommendations_def fresh_def truthy_def)
  show ?thesis
    using empty_response_hides_without_caching [OF f a] c by simp
qed

text \<open>
  Two activations with the same parameters, the second before the first request has
  settled: each issues a request for the same key.
\<close>

theorem two_activations_two_requests_counterexample:
  "requests (connectedCallback (connectedCallback fresh)) = [fetchUrl fresh, fetchUrl fresh]"
  by (simp add: widget_defs fresh_def)

text \<open>
  Claim C4, amended. An activation of an active widget that finds no cache entry for its
  request key \<open>k\<close> issues one network request for \<open>k\<close> and writes nothing to the
  cache, so that two activations with identical parameters issue two requests for \<open>k\<close>
  when the second comes while the first request is still in flight. Once a fetch for
  \<open>k\<close> that was not aborted has succeeded with at least one product card, all of them
  read without error, the cache holds for \<open>k\<close> the product sequence of that response;
  and whenever the cache holds a sequence for the widget's request key, an activation
  issues no network request, leaves the cache as it is, and (the widget being active)
  renders that cached sequence.
\<close>

theorem cache_idempotence:
  "(\<not> hidden s \<and> truthy (productId s) \<and> truthy (url s)
      \<and> cachedRecommendations s (fetchUrl s) = None
      \<longrightarrow> requests (connectedCallback s) = requests s @ [fetchUrl s]
          \<and> cachedRecommendations (connectedCallback s) = cachedRecommendations s
          \<and> fetchUrl (connectedCallback s) = fetchUrl s
          \<and> hidden (connectedCallback s) = hidden s
          \<and> productId (connectedCallback s) = productId s
          \<and> url (connectedCallback s) = url s)
   \<and> (find (\<lambda>p. controller p = c) (inflight s) = Some p \<and> c \<notin> aborted s \<and> cards \<noteq> []
        \<and> toProducts cards = Some ps
      \<longrightarrow> cachedRecommendations (settle c (Response True cards) s) (cacheKey p) = Some ps
          \<and> ps = map toProduct cards)
   \<and> (cachedRecommendations s (fetchUrl s) = Some ps
      \<longrightarrow> requests (connectedCallback s) = requests s
          \<and> inflight (connectedCallback s) = inflight s
          \<and> cachedRecommendations (connectedCallback s) = cachedRecommendations s
          \<and> (\<not> hidden s \<and> truthy (productId s) \<and> truthy (url s)
               \<longrightarrow> connectedCallback s = renderProducts ps s))"
proof -
  have miss: "\<not> hidden s \<and> truthy (productId s) \<and> truthy (url s)
      \<and> cachedRecommendations s (fetchUrl s) = None
      \<longrightarrow> requests (connectedCallback s) = requests s @ [fetchUrl s]
          \<and> cachedRecommendations (connectedCallback s) = cachedRecommendations s
          \<and> fetchUrl (connectedCallback s) = fetchUrl s
          \<and> hidden (connectedCallback s) = hidden s
          \<and> productId (connectedCallback s) = productId s
          \<and> url (connectedCallback s) = url s"
    by (simp add: connectedCallback_def loadRecommendations_def fetchUrl_def)
  have store: "find (\<lambda>p. controller p = c) (inflight s) = Some p \<and> c \<notin> aborted s
        \<and> cards \<noteq> [] \<and> toProducts cards = Some ps
      \<longrightarrow> cachedRecommendations (settle c (Response True cards) s) (cacheKey p) = Some ps
          \<and> ps = map toProduct cards"
    by (auto simp: settle_def finallyBlock_def tryBody_def renderProducts_frame Let_def
        toProducts_def split: if_splits)
  have hit: "cachedRecommendations s (fetchUrl s) = Some ps
      \<longrightarrow> requests (connectedCallback s) = requests s
          \<and> inflight (connectedCallback s) = inflight s
          \<and> cachedRecommendations (connectedCallback s) = cachedRecommendations s
          \<and> (\<not> hidden s \<and> truthy (productId s) \<and> truthy (url s)
               \<longrightarrow> connectedCallback s = renderProducts ps s)"
    by (simp add: renderProducts_frame connectedCallback_def loadRecommendations_def)
  from miss store hit show ?thesis
    by (intro conjI)
qed

theorem cache_idempotence_witness:
  "requests (connectedCallback fresh) = [fetchUrl fresh]
   \<and> requests (connectedCallback (connectedCallback fresh)) = [fetchUrl fresh, fetchUrl fresh]
   \<and> (let s1 = settle 0 (Response True [cardOf ''a'']) (connectedCallback fresh)
      in cachedRecommendations s1 (fetchUrl fresh) = Some [toProduct (cardOf ''a'')]
         \<and> requests (connectedCallback s1) = [fetchUrl fresh]
         \<and> connectedCallback s1 = renderProducts [toProduct (cardOf ''a'')] s1)"
proof -
  let ?s0 = "connectedCallback fresh"
  let ?p = "\<lparr>controller = 0, cacheKey = fetchUrl fresh, hasLoadingEl = True\<rparr>"
  let ?s1 = "settle 0 (Response True [cardOf ''a'']) ?s0"
  have a0: "\<not> hidden fresh" "truthy (productId fresh)" "truthy (url fresh)"
    "cachedRecommendations fresh (fetchUrl fresh) = None" "requests fresh = []"
    by (simp_all add: fresh_def truthy_def)
  have first: "requests ?s0 = [fetchUrl fresh]"
    "cachedRecommendations ?s0 (fetchUrl ?s0) = None" "\<not> hidden ?s0"
    "truthy (productId ?s0)" "truthy (url ?s0)" "fetchUrl ?s0 = fetchUrl fresh"
    using cache_idempotence [where s = fresh] a0 by simp_all
  have second: "requests (connectedCallback ?s0) = [fetchUrl fresh, fetchUrl fresh]"
    using cache_idempotence [where s = ?s0] first by simp
  have f: "find (\<lambda>p. controller p = 0) (inflight ?s0) = Some ?p"
    and a: "0 \<notin> aborted ?s0"
    by (simp_all add: connectedCallback_def loadRecommendations_def fresh_def truthy_def)
  have tp: "toProducts [cardOf ''a''] = Some [toProduct (cardOf ''a'')]"
    by (simp add: toProducts_def throws_def cardOf_def)
  have k: "fetchUrl ?s1 = fetchUrl fresh" and h: "\<not> hidden ?s1"
    and t: "truthy (productId ?s1)" "truthy (url ?s1)" and r1: "requests ?s1 = [fetchUrl fresh]"
    by (simp_all add: widget_defs fresh_def render_defs)
  have c1: "cachedRecommendations ?s1 (fetchUrl ?s1) = Some [toProduct (cardOf ''a'')]"
    using cache_idempotence [where c = 0 and s = ?s0 and p = ?p and cards = "[cardOf ''a'']"
        and ps = "[toProduct (cardOf ''a'')]"] f a k tp
    by simp
  have third: "requests (connectedCallback ?s1) = [fetchUrl fresh]
      \<and> connectedCallback ?s1 = renderProducts [toProduct (cardOf ''a'')] ?s1"
    using cache_idempotence [where s = ?s1 and ps = "[toProduct (cardOf ''a'')]"] c1 h t r1
    by (simp add: renderProducts_frame)
  show ?thesis
    using first(1) second c1 k third r1 by (simp add: Let_def renderProducts_frame)
qed

subsection \<open>The cap and the empty carousel\<close>

lemma filtered_empty_hides:
  "contentEl s \<noteq> None \<Longrightarrow> filterProducts (cartItemIds s) products = [] \<Longrightarrow>
     hidden (renderProducts products s) \<and> contentEl (renderProducts products s) = contentEl s"
  by (auto simp: renderProducts_def)

text \<open>
  Claim C2. When the products to display are none the widget must end hidden and no empty
  carousel may be shown. The source hides the widget when the product list or the filtered
  list is empty, and has no such check after the cap: with \<open>data-max-products="0"\<close> and
  one recommended product that is not in the cart, the widget stays visible and its content
  region is shown holding a carousel with no slide.
\<close>

theorem maxProducts_zero_renders_empty_carousel:
  "\<not> hidden (settle 0 (Response True [cardOf ''a''])
               (connectedCallback (fresh\<lparr>maxProducts := Some ''0''\<rparr>)))
   \<and> contentEl (settle 0 (Response True [cardOf ''a''])
               (connectedCallback (fresh\<lparr>maxProducts := Some ''0''\<rparr>)))
     = Some \<lparr>contentHidden = False,
         children = [Carousel \<lparr>timeline = [], container = [SlideshowSlides []]\<rparr>]\<rparr>"
  by (simp add: widget_defs fresh_def render_defs)

subsection \<open>A superseded fetch\<close>

lemma aborted_settle_frame:
  assumes "c \<in> aborted s"
  shows "cachedRecommendations (settle c out s) = cachedRecommendations s"
    and "hidden (settle c out s) = hidden s"
    and "contentEl (settle c out s) = contentEl s"
    and "requests (settle c out s) = requests s"
    and "errorLog (settle c out s) = errorLog s"
  using assms by (simp_all add: settle_def finallyBlock_def Let_def split: option.splits)

lemma raceB_eq:
  "raceB = fresh\<lparr>productId := Some ''456'', loadingEl := Some False, aborted := {0},
     activeFetch := Some 1, nextController := 2,
     requests := [fetchUrl fresh, fetchUrl (fresh\<lparr>productId := Some ''456''\<rparr>)],
     inflight := [\<lparr>controller = 0, cacheKey = fetchUrl fresh, hasLoadingEl = True\<rparr>,
                  \<lparr>controller = 1, cacheKey = fetchUrl (fresh\<lparr>productId := Some ''456''\<rparr>),
                    hasLoadingEl = True\<rparr>]\<rparr>"
  by (simp add: raceB_def connectedCallback_def loadRecommendations_def fetchUrl_def
      truthy_def str_def fresh_def)

lemma settle_raceB:
  "settle 0 out raceB = raceB\<lparr>loadingEl := Some True, activeFetch := None,
     inflight := [\<lparr>controller = 1, cacheKey = fetchUrl (fresh\<lparr>productId := Some ''456''\<rparr>),
                    hasLoadingEl = True\<rparr>]\<rparr>"
  by (simp add: raceB_eq settle_def finallyBlock_def fresh_def)

lemma raceC_eq:
  "raceC out = fresh\<lparr>productId := Some ''789'', loadingEl := Some False, aborted := {0},
     activeFetch := Some 2, nextController := 3,
     requests := [fetchUrl fresh, fetchUrl (fresh\<lparr>productId := Some ''456''\<rparr>),
                  fetchUrl (fresh\<lparr>productId := Some ''789''\<rparr>)],
     inflight := [\<lparr>controller = 1, cacheKey = fetchUrl (fresh\<lparr>productId := Some ''456''\<rparr>),
                    hasLoadingEl = True\<rparr>,
                  \<lparr>controller = 2, cacheKey = fetchUrl (fresh\<lparr>productId := Some ''789''\<rparr>),
                    hasLoadingEl = True\<rparr>]\<rparr>"
  unfolding raceC_def settle_raceB
  by (simp add: raceB_eq connectedCallback_def loadRecommendations_def fetchUrl_def
      truthy_def str_def fresh_def)

lemma settle_raceC:
  "contentEl (settle 1 (Response True [cardOf ''a'']) (raceC out)) =
     Some \<lparr>contentHidden = False,
           children = [Carousel (buildCarousel (parseSlides fresh)
                            [toProduct (cardOf ''a'')])]\<rparr>
   \<and> cachedRecommendations (settle 1 (Response True [cardOf ''a'']) (raceC out))
        (fetchUrl (fresh\<lparr>productId := Some ''456''\<rparr>)) = Some [toProduct (cardOf ''a'')]"
  unfolding raceC_eq
  by (simp add: settle_def finallyBlock_def tryBody_def renderProducts_def fresh_def
      fetchUrl_def str_def truthy_def cartItemIds_def keeps_def productsToShow_def
      maxProductsOf_def parseInt_nine slice0_def toProducts_def throws_def toProduct_def
      cardOf_def Let_def)

text \<open>
  Claim C1. A fetch cancelled because a newer one was started must have no observable
  effect when it settles, and only the most recently started fetch may write to the cache
  or render. In the source the \<open>finally\<close> block also runs for the cancelled call.
  After a second activation has aborted the first request (controller 0) and started its
  own (controller 1, loading indicator showing), the settling of the first request,
  whatever the network answered, hides the loading indicator and clears \<open>#activeFetch\<close>
  while the second request is still in flight. A third activation then finds no
  controller to abort, so the second request is never cancelled: when it succeeds it
  writes the cache and renders, though the third request is the most recent one.
\<close>

theorem superseded_fetch_touches_loading_indicator:
  "0 \<in> aborted raceB \<and> activeFetch raceB = Some 1 \<and> loadingEl raceB = Some False
   \<and> map controller (inflight raceB) = [0, 1]
   \<and> loadingEl (settle 0 out raceB) = Some True
   \<and> activeFetch (settle 0 out raceB) = None
   \<and> map controller (inflight (settle 0 out raceB)) = [1]
   \<and> activeFetch (raceC out) = Some 2 \<and> 1 \<notin> aborted (raceC out)
   \<and> map controller (inflight (raceC out)) = [1, 2]
   \<and> cachedRecommendations (settle 1 (Response True [cardOf ''a'']) (raceC out))
        (fetchUrl (fresh\<lparr>productId := Some ''456''\<rparr>)) = Some [toProduct (cardOf ''a'')]
   \<and> contentEl (settle 1 (Response True [cardOf ''a'']) (raceC out)) =
        Some \<lparr>contentHidden = False,
              children = [Carousel (buildCarousel (parseSlides fresh)
                            [toProduct (cardOf ''a'')])]\<rparr>"
proof -
  have b: "0 \<in> aborted raceB \<and> activeFetch raceB = Some 1 \<and> loadingEl raceB = Some False
      \<and> map controller (inflight raceB) = [0, 1]"
    by (simp add: raceB_eq)
  have b': "loadingEl (settle 0 out raceB) = Some True
      \<and> activeFetch (settle 0 out raceB) = None
      \<and> map controller (inflight (settle 0 out raceB)) = [1]"
    by (simp add: settle_raceB)
  have c: "activeFetch (raceC out) = Some 2 \<and> 1 \<notin> aborted (raceC out)
      \<and> map controller (inflight (raceC out)) = [1, 2]"
    by (simp add: raceC_eq)
  show ?thesis
    using b b' c settle_raceC [of out] by simp
qed

end
